theory Spec2Isabelle
  imports Complex_Main "HOL-Library.Signed_Division"
begin

section \<open>JavaScript dates\<close>

text \<open>
  A JavaScript \<^verbatim>\<open>Date\<close> holds a time value: a whole number of milliseconds since
  1970-01-01T00:00:00Z, or NaN (an "Invalid Date"). The methods the recurring-transaction
  code calls (\<^verbatim>\<open>getDate\<close>, \<^verbatim>\<open>setDate\<close>, \<^verbatim>\<open>getDay\<close>,
  \<^verbatim>\<open>setMonth\<close>, \<^verbatim>\<open>setFullYear\<close>, the three-argument constructor) work on
  local time; the host's zone is taken to be UTC, so local time and the time value coincide
  and no daylight-saving shift occurs. The functions follow the abstract operations of
  ECMA-262 (Day, TimeWithinDay, MakeDay, MakeDate, TimeClip, WeekDay); the proleptic
  Gregorian calendar is computed with the usual era arithmetic on years that start in March.
\<close>

datatype jsdate = Date int | InvalidDate

definition msPerDay :: int where
  "msPerDay = 86400000"

definition Day :: "int \<Rightarrow> int" where
  "Day t = t div msPerDay"

definition TimeWithinDay :: "int \<Rightarrow> int" where
  "TimeWithinDay t = t mod msPerDay"

definition WeekDay :: "int \<Rightarrow> int" where
  "WeekDay t = (Day t + 4) mod 7"

text \<open>
  \<open>DayFromYearMonth y m\<close> is the day number of the first day of the month \<open>m\<close>
  (0 = March, ..., 11 = February) of the year \<open>y\<close> that starts in March.
\<close>

definition DayFromYearMonth :: "int \<Rightarrow> int \<Rightarrow> int" where
  "DayFromYearMonth y m =
     365 * y + y div 4 - y div 100 + y div 400 + (153 * m + 2) div 5 - 719468"

text \<open>
  \<open>MakeDay year month date\<close>: the month may lie outside 0..11 and the date outside the
  month; both carry over, as in ECMA-262.
\<close>

definition MakeDay :: "int \<Rightarrow> int \<Rightarrow> int \<Rightarrow> int" where
  "MakeDay year month date =
     DayFromYearMonth ((year + month div 12) - (if month mod 12 \<le> 1 then 1 else 0))
        ((month mod 12 + 10) mod 12) + date - 1"

definition MakeDate :: "int \<Rightarrow> int \<Rightarrow> int" where
  "MakeDate day time = day * msPerDay + time"

definition TimeClip :: "int \<Rightarrow> jsdate" where
  "TimeClip t = (if \<bar>t\<bar> \<le> 8640000000000000 then Date t else InvalidDate)"

definition yearOfEra :: "int \<Rightarrow> int" where
  "yearOfEra doe = (doe - doe div 1460 + doe div 36524 - doe div 146096) div 365"

definition dayOfYear :: "int \<Rightarrow> int \<Rightarrow> int" where
  "dayOfYear doe yoe = doe - (365 * yoe + yoe div 4 - yoe div 100)"

definition civil :: "int \<Rightarrow> int \<Rightarrow> int \<Rightarrow> int \<times> int \<times> int" where
  "civil y doy mp =
     (if mp < 10 then (y, mp + 2, doy - (153 * mp + 2) div 5 + 1)
      else (y + 1, mp - 10, doy - (153 * mp + 2) div 5 + 1))"

definition civilOfEra :: "int \<Rightarrow> int \<Rightarrow> int \<Rightarrow> int \<times> int \<times> int" where
  "civilOfEra era doe yoe =
     civil (yoe + era * 400) (dayOfYear doe yoe) ((5 * dayOfYear doe yoe + 2) div 153)"

text \<open>\<open>CivilFromDay z\<close> is (year, month 0..11, day of month 1..31) of day number \<open>z\<close>.\<close>

definition CivilFromDay :: "int \<Rightarrow> int \<times> int \<times> int" where
  "CivilFromDay z =
     civilOfEra ((z + 719468) div 146097) ((z + 719468) mod 146097)
       (yearOfEra ((z + 719468) mod 146097))"

definition getFullYear :: "int \<Rightarrow> int" where
  "getFullYear t = fst (CivilFromDay (Day t))"

definition getMonth :: "int \<Rightarrow> int" where
  "getMonth t = fst (snd (CivilFromDay (Day t)))"

definition getDate :: "int \<Rightarrow> int" where
  "getDate t = snd (snd (CivilFromDay (Day t)))"

definition getDay :: "int \<Rightarrow> int" where
  "getDay t = WeekDay t"

definition setDate :: "int \<Rightarrow> int \<Rightarrow> jsdate" where
  "setDate t dt =
     TimeClip (MakeDate (MakeDay (getFullYear t) (getMonth t) dt) (TimeWithinDay t))"

definition setMonth :: "int \<Rightarrow> int \<Rightarrow> jsdate" where
  "setMonth t m =
     TimeClip (MakeDate (MakeDay (getFullYear t) m (getDate t)) (TimeWithinDay t))"

definition setFullYear :: "int \<Rightarrow> int \<Rightarrow> jsdate" where
  "setFullYear t y =
     TimeClip (MakeDate (MakeDay y (getMonth t) (getDate t)) (TimeWithinDay t))"

text \<open>\<^verbatim>\<open>new Date(year, month, date)\<close>: a year in 0..99 means 1900 + year.\<close>

definition newDate3 :: "int \<Rightarrow> int \<Rightarrow> int \<Rightarrow> jsdate" where
  "newDate3 y m d =
     TimeClip (MakeDate (MakeDay (if 0 \<le> y \<and> y \<le> 99 then 1900 + y else y) m d) 0)"

text \<open>
  Relational operators on dates compare the time values; a comparison with NaN is false.
\<close>

fun date_gt :: "jsdate \<Rightarrow> int \<Rightarrow> bool" where
  "date_gt (Date t) e = (t > e)"
| "date_gt InvalidDate e = False"

fun le_date :: "int \<Rightarrow> jsdate \<Rightarrow> bool" where
  "le_date v (Date t) = (v \<le> t)"
| "le_date v InvalidDate = False"

text \<open>Building a fixed instant of the calendar, for the examples.\<close>

definition utc :: "int \<Rightarrow> int \<Rightarrow> int \<Rightarrow> int \<Rightarrow> int" where
  "utc y m d h = MakeDate (MakeDay y m d) (h * 3600000)"


section \<open>The models: Transaction and RecurringTransaction\<close>

datatype txn_type = income | expense

datatype frequency = daily | weekly | monthly | yearly

datatype error =
    AppError string nat
  | Error string
  | TypeError string
  | StoreError
  | CastError

text \<open>
  \<^verbatim>\<open>models/Transaction.js\<close>: the ledger entry. \<open>isFromRecurring\<close> and
  \<open>recurringTransactionId\<close> have the schema defaults \<open>false\<close> and \<open>null\<close>.
\<close>

record Transaction =
  userId :: nat
  type :: txn_type
  amount :: rat
  category :: string
  description :: string
  date :: int
  receiptId :: "string option"
  receiptUrl :: "string option"
  isFromReceipt :: bool
  isFromRecurring :: bool
  recurringTransactionId :: "nat option"
  lastAccessed :: int

text \<open>
  A path that the schema does not require is stored in one of three ways: the document
  does not have the path (reading it gives \<^verbatim>\<open>undefined\<close>), the document holds
  \<^verbatim>\<open>null\<close>, or it holds a value. The creation form of the front end sends
  \<^verbatim>\<open>endDate: null\<close> for a template without end date, and a document is stored with
  the \<^verbatim>\<open>null\<close> it was created with.
\<close>

datatype 'a optional = Absent | Null | Value 'a

text \<open>
  \<^verbatim>\<open>models/RecurringTransaction.js\<close>: the template. \<open>oid\<close> is the document's
  \<^verbatim>\<open>_id\<close>. Dates stored in a document are valid time values. The paths
  \<open>endDate\<close>, \<open>dayOfMonth\<close> and \<open>dayOfWeek\<close> keep the three ways apart, because the
  code tells them apart. For \<open>month\<close> and \<open>lastProcessed\<close>, which the functions
  below never read, and for \<open>nextOccurrence\<close>, which they only test for truth and
  compare with dates, \<open>None\<close> stands for both \<^verbatim>\<open>undefined\<close> and
  \<^verbatim>\<open>null\<close>.
\<close>

record RecurringTransaction =
  oid :: nat
  userId :: nat
  type :: txn_type
  amount :: rat
  category :: string
  description :: string
  startDate :: int
  endDate :: "int optional"
  frequency :: frequency
  dayOfMonth :: "int optional"
  dayOfWeek :: "int optional"
  month :: "int option"
  isActive :: bool
  lastProcessed :: "int option"
  nextOccurrence :: "int option"

subsection \<open>calculateNextOccurrence\<close>

text \<open>
  \<^verbatim>\<open>let nextDate = new Date(this.nextOccurrence || this.startDate);\<close>
  \<^verbatim>\<open>if (this.nextOccurrence && this.nextOccurrence > now) nextDate = new Date(this.nextOccurrence);\<close>
\<close>

definition baseDate :: "int \<Rightarrow> RecurringTransaction \<Rightarrow> int" where
  "baseDate now rt =
     (case nextOccurrence rt of
        None \<Rightarrow> startDate rt
      | Some n \<Rightarrow> (if n > now then n else n))"

text \<open>
  A path read as an operand of arithmetic or of \<^verbatim>\<open>Math.min\<close>: \<^verbatim>\<open>undefined\<close>
  becomes NaN (\<open>None\<close>), \<^verbatim>\<open>null\<close> becomes 0.
\<close>

definition toNumber :: "int optional \<Rightarrow> int option" where
  "toNumber v = (case v of Absent \<Rightarrow> None | Null \<Rightarrow> Some 0 | Value n \<Rightarrow> Some n)"

text \<open>
  \<^verbatim>\<open>let daysToAdd = (targetDay - currentDay + 7) % 7; daysToAdd = daysToAdd === 0 ? 7 : daysToAdd;\<close>
  The remainder operator of JavaScript takes the sign of the dividend.
\<close>

definition daysToAdd :: "int \<Rightarrow> int \<Rightarrow> int" where
  "daysToAdd targetDay currentDay =
     (if (targetDay - currentDay + 7) smod 7 = 0 then 7
      else (targetDay - currentDay + 7) smod 7)"

text \<open>
  \<^verbatim>\<open>Math.min(this.dayOfMonth, new Date(nextDate.getFullYear(), nextDate.getMonth() + 1, 0).getDate())\<close>
  followed by \<^verbatim>\<open>nextDate.setDate(targetDayOfMonth)\<close>, for \<open>nextDate\<close> with time value \<open>t\<close>.
\<close>

definition setTargetDayOfMonth :: "int \<Rightarrow> int \<Rightarrow> jsdate" where
  "setTargetDayOfMonth d t =
     (case newDate3 (getFullYear t) (getMonth t + 1) 0 of
        InvalidDate \<Rightarrow> InvalidDate
      | Date e \<Rightarrow> setDate t (min d (getDate e)))"

text \<open>
  The value of \<open>nextDate\<close> after the \<^verbatim>\<open>switch (this.frequency)\<close>. A weekly template
  without \<open>dayOfWeek\<close>, or a monthly one without \<open>dayOfMonth\<close>, makes the argument of
  \<^verbatim>\<open>setDate\<close> NaN, and the date invalid.
\<close>

definition nextDate :: "int \<Rightarrow> RecurringTransaction \<Rightarrow> jsdate" where
  "nextDate now rt =
     (case frequency rt of
        daily \<Rightarrow> setDate (baseDate now rt) (getDate (baseDate now rt) + 1)
      | weekly \<Rightarrow>
          (case toNumber (dayOfWeek rt) of
             None \<Rightarrow> InvalidDate
           | Some targetDay \<Rightarrow>
               setDate (baseDate now rt)
                 (getDate (baseDate now rt) + daysToAdd targetDay (getDay (baseDate now rt))))
      | monthly \<Rightarrow>
          (case setMonth (baseDate now rt) (getMonth (baseDate now rt) + 1) of
             InvalidDate \<Rightarrow> InvalidDate
           | Date t \<Rightarrow>
               (case toNumber (dayOfMonth rt) of
                  None \<Rightarrow> InvalidDate
                | Some d \<Rightarrow> setTargetDayOfMonth d t))
      | yearly \<Rightarrow> setFullYear (baseDate now rt) (getFullYear (baseDate now rt) + 1))"

text \<open>
  The method: \<open>None\<close> is \<^verbatim>\<open>null\<close>. The test
  \<^verbatim>\<open>this.endDate && nextDate > this.endDate\<close> is made only for an \<open>endDate\<close> that
  holds a date.
\<close>

definition calculateNextOccurrence :: "int \<Rightarrow> RecurringTransaction \<Rightarrow> jsdate option" where
  "calculateNextOccurrence now rt =
     (if \<not> isActive rt then None
      else (case endDate rt of
              Absent \<Rightarrow> Some (nextDate now rt)
            | Null \<Rightarrow> Some (nextDate now rt)
            | Value e \<Rightarrow> (if date_gt (nextDate now rt) e then None else Some (nextDate now rt))))"

text \<open>
  Assigning to the path \<open>nextOccurrence\<close> of a document: \<^verbatim>\<open>null\<close> clears it and a
  valid date is stored. An Invalid Date does not cast to the schema type \<^verbatim>\<open>Date\<close>:
  the path keeps the value it had and the cast error is recorded on the document.
  \<open>assignNextOccurrence\<close> is an assignment made before \<^verbatim>\<open>save\<close> is called, whose
  validation then rejects with the recorded error; \<open>hookAssign\<close> is an assignment made
  inside the \<^verbatim>\<open>pre('save')\<close> hook, which runs after the validation of that
  \<^verbatim>\<open>save\<close>.
\<close>

fun assignNextOccurrence :: "jsdate option \<Rightarrow> RecurringTransaction \<Rightarrow> error + RecurringTransaction" where
  "assignNextOccurrence None rt = Inr (rt\<lparr>nextOccurrence := None\<rparr>)"
| "assignNextOccurrence (Some (Date t)) rt = Inr (rt\<lparr>nextOccurrence := Some t\<rparr>)"
| "assignNextOccurrence (Some InvalidDate) rt = Inl CastError"

fun hookAssign :: "jsdate option \<Rightarrow> RecurringTransaction \<Rightarrow> RecurringTransaction" where
  "hookAssign None rt = rt\<lparr>nextOccurrence := None\<rparr>"
| "hookAssign (Some (Date t)) rt = rt\<lparr>nextOccurrence := Some t\<rparr>"
| "hookAssign (Some InvalidDate) rt = rt"

text \<open>
  The \<^verbatim>\<open>pre('save')\<close> hook. \<open>isNew\<close> and the list of modified paths are the
  document's change tracking. Mongoose validates a document before it runs the hooks that
  the schema registers for \<^verbatim>\<open>save\<close>, so the \<^verbatim>\<open>required\<close> of \<open>nextOccurrence\<close>
  is tested on the document as it was before the hook. The hook always ends with
  \<^verbatim>\<open>next()\<close>: its result is \<open>Inr\<close> of the document it leaves.
\<close>

definition preSave :: "int \<Rightarrow> bool \<Rightarrow> string list \<Rightarrow> RecurringTransaction \<Rightarrow> error + RecurringTransaction" where
  "preSave now isNew modified rt =
     (if isNew \<or> ''frequency'' \<in> set modified \<or> ''startDate'' \<in> set modified
         \<or> ''endDate'' \<in> set modified
      then (if startDate rt < now
            then Inr (hookAssign
                   (calculateNextOccurrence now (rt\<lparr>nextOccurrence := Some (startDate rt)\<rparr>))
                   (rt\<lparr>nextOccurrence := Some (startDate rt)\<rparr>))
            else Inr (rt\<lparr>nextOccurrence := Some (startDate rt)\<rparr>))
      else Inr rt)"

subsection \<open>getTransactionsToProcess\<close>

text \<open>
  The query \<^verbatim>\<open>{ isActive: true, nextOccurrence: { $lte: now },
  $or: [ { endDate: { $exists: false } }, { endDate: { $gte: now } } ] }\<close>
  on one document. \<^verbatim>\<open>$exists: false\<close> matches a document without the path and
  not one that stores \<^verbatim>\<open>null\<close>; a comparison with a date matches neither.
\<close>

definition matchesQuery :: "int \<Rightarrow> RecurringTransaction \<Rightarrow> bool" where
  "matchesQuery now rt =
     (isActive rt
      \<and> (case nextOccurrence rt of None \<Rightarrow> False | Some n \<Rightarrow> n \<le> now)
      \<and> (endDate rt = Absent
           \<or> (case endDate rt of Absent \<Rightarrow> False | Null \<Rightarrow> False | Value e \<Rightarrow> e \<ge> now)))"

text \<open>
  The static is declared \<^verbatim>\<open>async\<close>: a call of it gives a promise, and
  \<open>getTransactionsToProcess now ts\<close> is the list of documents that promise resolves to,
  for the clock \<open>now\<close> and the stored templates \<open>ts\<close>.
\<close>

definition getTransactionsToProcess :: "int \<Rightarrow> RecurringTransaction list \<Rightarrow> RecurringTransaction list" where
  "getTransactionsToProcess now ts = filter (matchesQuery now) ts"


section \<open>The ledger write: createTransaction\<close>

text \<open>
  \<^verbatim>\<open>String.prototype.trim\<close>, which the schema option \<^verbatim>\<open>trim: true\<close> applies to
  \<open>category\<close> and \<open>description\<close>. A string is a list of code units below 256, among
  which tab, line feed, vertical tab, form feed, carriage return, space and no-break space
  are white space.
\<close>

definition isWhiteSpace :: "char \<Rightarrow> bool" where
  "isWhiteSpace c = (of_char c \<in> {9, 10, 11, 12, 13, 32, 160 :: nat})"

definition trim :: "string \<Rightarrow> string" where
  "trim s = rev (dropWhile isWhiteSpace (rev (dropWhile isWhiteSpace s)))"

text \<open>
  The request object that \<^verbatim>\<open>createTransaction\<close> reads: \<^verbatim>\<open>req.body\<close>,
  \<^verbatim>\<open>req.userId\<close>, and whether \<^verbatim>\<open>validationResult(req)\<close> holds errors. A body may
  carry \<open>isFromRecurring\<close> and \<open>recurringTransactionId\<close>.
\<close>

record request =
  body_type :: txn_type
  body_amount :: rat
  body_category :: string
  body_description :: string
  body_date :: "int option"
  body_receiptId :: "string option"
  body_receiptUrl :: "string option"
  body_isFromRecurring :: "bool option"
  body_recurringTransactionId :: "nat option"
  req_userId :: nat
  validationErrors :: bool

text \<open>
  What the code does not control in one call: the clock (every \<^verbatim>\<open>new Date()\<close> of one
  call reads the same instant \<open>clock\<close>) and the outcome of each database operation.
  \<^item> \<open>sessionFails\<close>: \<^verbatim>\<open>mongoose.startSession()\<close> rejects.
  \<^item> \<open>findFails\<close>: the awaited \<^verbatim>\<open>findOne\<close> of \<^verbatim>\<open>toggleActiveStatus\<close> rejects.
  \<^item> \<open>ledgerFails d\<close>: the database rejects \<^verbatim>\<open>transaction.save()\<close> of the valid
    document \<open>d\<close>.
  \<^item> \<open>writeFails\<close>: the write to the templates (\<^verbatim>\<open>bulkWrite\<close>, \<^verbatim>\<open>save\<close>,
    \<^verbatim>\<open>findOneAndUpdate\<close>) rejects.
  \<^item> \<open>commitFails\<close>: \<^verbatim>\<open>session.commitTransaction()\<close> rejects.
\<close>

record env =
  clock :: int
  sessionFails :: bool
  findFails :: bool
  ledgerFails :: "Transaction \<Rightarrow> bool"
  writeFails :: bool
  commitFails :: bool

text \<open>
  \<^verbatim>\<open>new Transaction({...})\<close> as \<^verbatim>\<open>createTransaction\<close> builds it: the body's
  \<open>isFromRecurring\<close> and \<open>recurringTransactionId\<close> are not among the destructured
  names, so both paths take their schema defaults. \<^verbatim>\<open>parseFloat\<close> of a finite number
  gives that number back.
\<close>

definition truthy :: "string option \<Rightarrow> bool" where
  "truthy v = (case v of None \<Rightarrow> False | Some s \<Rightarrow> s \<noteq> [])"

definition newTransaction :: "int \<Rightarrow> request \<Rightarrow> Transaction" where
  "newTransaction now req =
     \<lparr> Transaction.userId = req_userId req,
       Transaction.type = body_type req,
       Transaction.amount = body_amount req,
       Transaction.category = trim (body_category req),
       Transaction.description = trim (body_description req),
       date = (case body_date req of Some d \<Rightarrow> d | None \<Rightarrow> now),
       receiptId = (if truthy (body_receiptId req) then map_option trim (body_receiptId req) else None),
       receiptUrl = (if truthy (body_receiptUrl req) then map_option trim (body_receiptUrl req) else None),
       isFromReceipt = truthy (body_receiptId req),
       isFromRecurring = False,
       recurringTransactionId = None,
       lastAccessed = now \<rparr>"

text \<open>The category enumeration of \<^verbatim>\<open>models/Transaction.js\<close>.\<close>

definition transactionCategories :: "string list" where
  "transactionCategories =
     [''Food & Dining'', ''Transportation'', ''Shopping'', ''Entertainment'', ''Healthcare'',
      ''Utilities'', ''Education'', ''Travel'', ''Salary'', ''Business'', ''Investment'',
      ''Others'']"

text \<open>The category enumeration of \<^verbatim>\<open>models/RecurringTransaction.js\<close>.\<close>

definition recurringCategories :: "string list" where
  "recurringCategories =
     [''Food & Dining'', ''Transportation'', ''Shopping'', ''Entertainment'', ''Healthcare'',
      ''Utilities'', ''Education'', ''Travel'', ''Salary'', ''Business'', ''Investment'',
      ''Rent/Mortgage'', ''Subscriptions'', ''Others'']"

text \<open>
  The validators of the Transaction schema: amount between 0.01 and 10000000 and positive,
  category in the enumeration, description of at most 200 characters, date at most one
  year after now (\<^verbatim>\<open>oneYearFromNow.setFullYear(oneYearFromNow.getFullYear() + 1)\<close>).
\<close>

definition validateTransaction :: "int \<Rightarrow> Transaction \<Rightarrow> bool" where
  "validateTransaction now d =
     (1 / 100 \<le> Transaction.amount d \<and> Transaction.amount d \<le> 10000000
      \<and> 0 < Transaction.amount d
      \<and> Transaction.category d \<in> set transactionCategories
      \<and> length (Transaction.description d) \<le> 200
      \<and> le_date (date d) (setFullYear now (getFullYear now + 1)))"

text \<open>
  \<^verbatim>\<open>createTransaction(req, res)\<close>. The response object is the function
  \<open>res code message\<close> for \<^verbatim>\<open>res.status(code).json({message, ...})\<close>, which may throw.
  A throw inside the \<^verbatim>\<open>try\<close> block reaches the \<^verbatim>\<open>catch\<close>, which answers 500;
  a throw of that last call leaves the function. The document is saved without a session.
\<close>

definition createTransaction ::
  "env \<Rightarrow> request \<Rightarrow> (nat \<Rightarrow> string \<Rightarrow> error + unit) \<Rightarrow> Transaction list
     \<Rightarrow> (error + unit) \<times> Transaction list" where
  "createTransaction e req res led =
     (if validationErrors req then
        (case res 400 ''Validation failed'' of
           Inr u \<Rightarrow> (Inr u, led)
         | Inl x \<Rightarrow> (res 500 ''Failed to create transaction'', led))
      else if validateTransaction (clock e) (newTransaction (clock e) req)
              \<and> \<not> ledgerFails e (newTransaction (clock e) req) then
        (case res 201 ''Transaction created successfully'' of
           Inr u \<Rightarrow> (Inr u, led @ [newTransaction (clock e) req])
         | Inl x \<Rightarrow> (res 500 ''Failed to create transaction'',
                       led @ [newTransaction (clock e) req]))
      else (res 500 ''Failed to create transaction'', led))"


section \<open>The controller\<close>

text \<open>
  Modelled from the spec: \<^verbatim>\<open>utils/catchAsync\<close>, which wraps every exported handler
  of the controller, is not among the sources. The spec has the batch processor return its
  result to the trigger that called it and surface a catastrophic failure to that caller,
  and has a lifecycle operation return the updated template or an error; the scheduler and
  the administrative route await \<^verbatim>\<open>processRecurringTransactions()\<close>, read
  \<^verbatim>\<open>result.processed\<close> and catch what it throws. So the wrapper hands the value and
  the failure of the wrapped function through unchanged.
\<close>

definition catchAsync :: "'a \<Rightarrow> 'a" where
  "catchAsync fn = fn"

text \<open>
  The mock response of the controller:
  \<^verbatim>\<open>json: function(data) { if (this.statusCode >= 400) throw new Error(data.message || fallback); return data; }\<close>
\<close>

definition mockRes :: "string \<Rightarrow> nat \<Rightarrow> string \<Rightarrow> error + unit" where
  "mockRes fallback code message =
     (if code \<ge> 400 then Inl (Error (if message = [] then fallback else message))
      else Inr ())"

text \<open>
  The mock request that \<^verbatim>\<open>processRecurringTransactions\<close> builds from a template: the
  body has \<open>type\<close>, \<open>amount\<close>, \<open>category\<close>, \<open>description\<close> and \<open>date\<close> only. A request
  built by hand carries no validation errors.
\<close>

definition mockReq :: "RecurringTransaction \<Rightarrow> request" where
  "mockReq rt =
     \<lparr> body_type = type rt,
       body_amount = amount rt,
       body_category = category rt,
       body_description =
         (if description rt = [] then ''Recurring: '' @ category rt else description rt),
       body_date = nextOccurrence rt,
       body_receiptId = None,
       body_receiptUrl = None,
       body_isFromRecurring = None,
       body_recurringTransactionId = None,
       req_userId = userId rt,
       validationErrors = False \<rparr>"

text \<open>
  The mock request, also named \<^verbatim>\<open>mockReq\<close>, that \<^verbatim>\<open>createRecurringTransaction\<close>
  builds from the template it has just created, to save the template's initial entry with
  \<^verbatim>\<open>createTransaction\<close>: its body has, besides the fields above,
  \<^verbatim>\<open>isFromRecurring: true\<close> and \<^verbatim>\<open>recurringTransactionId: recurringTransaction[0]._id\<close>.
\<close>

definition mockReqInitial :: "RecurringTransaction \<Rightarrow> request" where
  "mockReqInitial rt =
     \<lparr> body_type = type rt,
       body_amount = amount rt,
       body_category = category rt,
       body_description =
         (if description rt = [] then ''Recurring: '' @ category rt else description rt),
       body_date = nextOccurrence rt,
       body_receiptId = None,
       body_receiptUrl = None,
       body_isFromRecurring = Some True,
       body_recurringTransactionId = Some (oid rt),
       req_userId = userId rt,
       validationErrors = False \<rparr>"

text \<open>
  One element of \<open>recurringUpdates\<close>:
  \<^verbatim>\<open>{ updateOne: { filter: { _id }, update: { $set: { lastProcessed, nextOccurrence, isActive } } } }\<close>
  with \<^verbatim>\<open>nextOccurrence: nextOccurrence || rt.nextOccurrence\<close> and
  \<^verbatim>\<open>isActive = !!nextOccurrence\<close>; a \<^verbatim>\<open>Date\<close> object is truthy, also an invalid one.
\<close>

record updateOne =
  filter_id :: nat
  set_lastProcessed :: int
  set_nextOccurrence :: "jsdate option"
  set_isActive :: bool

definition recurringUpdate :: "env \<Rightarrow> RecurringTransaction \<Rightarrow> updateOne" where
  "recurringUpdate e rt =
     \<lparr> filter_id = oid rt,
       set_lastProcessed = clock e,
       set_nextOccurrence =
         (case calculateNextOccurrence (clock e) rt of
            Some d \<Rightarrow> Some d
          | None \<Rightarrow> map_option Date (nextOccurrence rt)),
       set_isActive = (calculateNextOccurrence (clock e) rt \<noteq> None) \<rparr>"

text \<open>Calls of \<^verbatim>\<open>logger.error\<close>, with the fields a claim is about.\<close>

datatype log_entry =
    ErrorProcessingTransaction string nat
  | ErrorProcessingTransactions
  | ErrorTogglingActiveStatus nat

text \<open>The two collections and the error log.\<close>

record world =
  templates :: "RecurringTransaction list"
  ledger :: "Transaction list"
  errorLog :: "log_entry list"

text \<open>The variables of one cycle: the loop changes the ledger, the log and its two locals.\<close>

record cycle =
  cy_ledger :: "Transaction list"
  cy_errorLog :: "log_entry list"
  processedCount :: nat
  recurringUpdates :: "updateOne list"

fun message :: "error \<Rightarrow> string" where
  "message (AppError m c) = m"
| "message (Error m) = m"
| "message (TypeError m) = m"
| "message StoreError = ''store error''"
| "message CastError = ''cast error''"

text \<open>The body of the \<^verbatim>\<open>for\<close> loop, with its \<^verbatim>\<open>try\<close> and \<^verbatim>\<open>catch\<close>.\<close>

definition processOne :: "env \<Rightarrow> RecurringTransaction \<Rightarrow> cycle \<Rightarrow> cycle" where
  "processOne e rt c =
     (case createTransaction e (mockReq rt) (mockRes ''Failed to create transaction'') (cy_ledger c) of
        (Inl x, led) \<Rightarrow>
          c\<lparr>cy_ledger := led,
            cy_errorLog := cy_errorLog c @ [ErrorProcessingTransaction (message x) (oid rt)]\<rparr>
      | (Inr u, led) \<Rightarrow>
          c\<lparr>cy_ledger := led,
            processedCount := processedCount c + 1,
            recurringUpdates := recurringUpdates c @ [recurringUpdate e rt]\<rparr>)"

fun processLoop :: "env \<Rightarrow> RecurringTransaction list \<Rightarrow> cycle \<Rightarrow> cycle" where
  "processLoop e [] c = c"
| "processLoop e (rt # rts) c = processLoop e rts (processOne e rt c)"

text \<open>
  \<^verbatim>\<open>updateOne\<close> changes the first document that matches the filter. The \<^verbatim>\<open>$set\<close>
  is cast to the schema: an Invalid Date does not cast, and the bulk write rejects. A
  \<open>nextOccurrence\<close> that is neither computed nor present in the template (which no
  selected template has) leaves the path without a date.
\<close>

fun updateFirst ::
  "(RecurringTransaction \<Rightarrow> bool) \<Rightarrow> (RecurringTransaction \<Rightarrow> RecurringTransaction)
     \<Rightarrow> RecurringTransaction list \<Rightarrow> RecurringTransaction list" where
  "updateFirst p f [] = []"
| "updateFirst p f (t # ts) = (if p t then f t # ts else t # updateFirst p f ts)"

fun castDate :: "jsdate option \<Rightarrow> int option" where
  "castDate (Some (Date t)) = Some t"
| "castDate (Some InvalidDate) = None"
| "castDate None = None"

definition casts :: "updateOne \<Rightarrow> bool" where
  "casts u = (set_nextOccurrence u \<noteq> Some InvalidDate)"

definition applyUpdate :: "updateOne \<Rightarrow> RecurringTransaction \<Rightarrow> RecurringTransaction" where
  "applyUpdate u rt =
     rt\<lparr>lastProcessed := Some (set_lastProcessed u),
        nextOccurrence := castDate (set_nextOccurrence u),
        isActive := set_isActive u\<rparr>"

definition applyUpdates :: "updateOne list \<Rightarrow> RecurringTransaction list \<Rightarrow> RecurringTransaction list" where
  "applyUpdates us ts = foldl (\<lambda>ts u. updateFirst (\<lambda>t. oid t = filter_id u) (applyUpdate u) ts) ts us"

definition bulkWrite :: "env \<Rightarrow> updateOne list \<Rightarrow> RecurringTransaction list \<Rightarrow> error + RecurringTransaction list" where
  "bulkWrite e us ts =
     (if \<not> list_all casts us then Inl CastError
      else if writeFails e then Inl StoreError
      else Inr (applyUpdates us ts))"

record processResult =
  success :: bool
  processed :: nat
  timestamp :: int

text \<open>
  The first statement of the \<^verbatim>\<open>try\<close> block is
  \<^verbatim>\<open>await RecurringTransaction.getTransactionsToProcess().session(session).lean()\<close>.
  The value of the call of the \<^verbatim>\<open>async\<close> static is a promise, not a query. A promise
  has no property \<^verbatim>\<open>session\<close>, so \<^verbatim>\<open>.session(session)\<close> calls
  \<^verbatim>\<open>undefined\<close> and raises a TypeError, before \<^verbatim>\<open>.lean()\<close> and before anything is
  awaited. \<open>session\<close> is that member call on a promise.
\<close>

datatype 'a promise = Promise 'a

fun session :: "'a promise \<Rightarrow> error + 'a" where
  "session (Promise docs) =
     Inl (TypeError ''RecurringTransaction.getTransactionsToProcess(...).session is not a function'')"

text \<open>
  \<^verbatim>\<open>processRecurringTransactions\<close>. \<^verbatim>\<open>mongoose.startSession()\<close> is awaited outside
  the \<^verbatim>\<open>try\<close>. Inside it come the read, the loop, the bulk write of the queued updates
  and the commit; the ledger entries are saved outside the session, each at once. The outer
  \<^verbatim>\<open>catch\<close> aborts, logs and throws again. The value returned at the end of the
  \<^verbatim>\<open>try\<close> is the object
  \<^verbatim>\<open>{ success: true, processed: processedCount, timestamp: new Date() }\<close>.
\<close>

definition abortCycle :: "error \<Rightarrow> world \<Rightarrow> cycle \<Rightarrow> (error + processResult) \<times> world" where
  "abortCycle x w c =
     (Inl x, w\<lparr>ledger := cy_ledger c, errorLog := cy_errorLog c @ [ErrorProcessingTransactions]\<rparr>)"

definition finishCycle :: "env \<Rightarrow> world \<Rightarrow> cycle \<Rightarrow> (error + processResult) \<times> world" where
  "finishCycle e w c =
     (case (if recurringUpdates c \<noteq> [] then bulkWrite e (recurringUpdates c) (templates w)
            else Inr (templates w)) of
        Inl x \<Rightarrow> abortCycle x w c
      | Inr ts \<Rightarrow>
          (if commitFails e then abortCycle StoreError w c
           else (Inr \<lparr>success = True, processed = processedCount c, timestamp = clock e\<rparr>,
                 w\<lparr>templates := ts, ledger := cy_ledger c, errorLog := cy_errorLog c\<rparr>)))"

definition startCycle :: "world \<Rightarrow> cycle" where
  "startCycle w =
     \<lparr>cy_ledger = ledger w, cy_errorLog = errorLog w, processedCount = 0, recurringUpdates = []\<rparr>"

definition processRecurringTransactions :: "env \<Rightarrow> world \<Rightarrow> (error + processResult) \<times> world" where
  "processRecurringTransactions =
     catchAsync (\<lambda>e w.
       if sessionFails e then (Inl StoreError, w)
       else (case session (Promise (getTransactionsToProcess (clock e) (templates w))) of
               Inl x \<Rightarrow> abortCycle x w (startCycle w)
             | Inr recurringTransactions \<Rightarrow>
                 finishCycle e w (processLoop e recurringTransactions (startCycle w))))"


subsection \<open>toggleActiveStatus\<close>

definition findOne :: "nat \<Rightarrow> nat \<Rightarrow> RecurringTransaction list \<Rightarrow> RecurringTransaction option" where
  "findOne i uid ts = find (\<lambda>t. oid t = i \<and> userId t = uid) ts"

text \<open>
  The block \<^verbatim>\<open>if (recurringTransaction.isActive) { ... }\<close> after the flag is flipped.
  The method is called as \<^verbatim>\<open>calculateNextOccurrence(now)\<close>; it declares no parameter and
  reads the clock itself. \<open>Inl\<close> is the early \<^verbatim>\<open>return next(new AppError(..., 400))\<close>;
  otherwise the value assigned to the document's \<open>nextOccurrence\<close>, if any.
\<close>

definition reactivate :: "int \<Rightarrow> RecurringTransaction \<Rightarrow> error + RecurringTransaction \<times> jsdate option" where
  "reactivate now rt =
     (if isActive rt \<and> (case nextOccurrence rt of None \<Rightarrow> True | Some n \<Rightarrow> n < now) then
        (case calculateNextOccurrence now rt of
           None \<Rightarrow> Inl (AppError ''Cannot activate - no valid future occurrences'' 400)
         | Some d \<Rightarrow> Inr (rt, Some d))
      else Inr (rt, None))"

text \<open>
  \<^verbatim>\<open>recurringTransaction.save({ session })\<close> of a document read from the store, of which
  the paths in \<open>modified\<close> were assigned: the pending assignment is cast, and an
  assignment that did not cast makes the validation of the \<^verbatim>\<open>save\<close> reject; then
  the \<^verbatim>\<open>pre('save')\<close> hook runs, and the document replaces the stored one.
\<close>

definition saveDocument ::
  "env \<Rightarrow> string list \<Rightarrow> RecurringTransaction \<times> jsdate option \<Rightarrow> RecurringTransaction list
     \<Rightarrow> error + RecurringTransaction \<times> RecurringTransaction list" where
  "saveDocument e modified p ts =
     (case (case snd p of None \<Rightarrow> Inr (fst p) | Some d \<Rightarrow> assignNextOccurrence (Some d) (fst p)) of
        Inl x \<Rightarrow> Inl x
      | Inr rt \<Rightarrow>
          (case preSave (clock e) False modified rt of
             Inl x \<Rightarrow> Inl x
           | Inr rt' \<Rightarrow>
               (if writeFails e \<or> commitFails e then Inl StoreError
                else Inr (rt', updateFirst (\<lambda>t. oid t = oid rt') (\<lambda>t. rt') ts))))"

definition toggleActiveStatus ::
  "env \<Rightarrow> nat \<Rightarrow> nat \<Rightarrow> world \<Rightarrow> (error + RecurringTransaction) \<times> world" where
  "toggleActiveStatus =
     catchAsync (\<lambda>e i uid w.
       if sessionFails e then (Inl StoreError, w)
       else if findFails e then
         (Inl StoreError, w\<lparr>errorLog := errorLog w @ [ErrorTogglingActiveStatus i]\<rparr>)
       else
         (case findOne i uid (templates w) of
            None \<Rightarrow> (Inl (AppError ''No recurring transaction found with that ID'' 404), w)
          | Some rt \<Rightarrow>
              (case reactivate (clock e) (rt\<lparr>isActive := \<not> isActive rt\<rparr>) of
                 Inl x \<Rightarrow> (Inl x, w)
               | Inr p \<Rightarrow>
                   (case saveDocument e [''isActive'', ''nextOccurrence''] p (templates w) of
                      Inl x \<Rightarrow>
                        (Inl x, w\<lparr>errorLog := errorLog w @ [ErrorTogglingActiveStatus i]\<rparr>)
                    | Inr (rt', ts) \<Rightarrow> (Inr rt', w\<lparr>templates := ts\<rparr>)))))"

subsection \<open>updateRecurringTransaction\<close>

text \<open>
  The request body, by the paths it sets: \<open>None\<close>, or \<open>Absent\<close>, for a path that the
  body does not name. \<^verbatim>\<open>findOneAndUpdate(filter, req.body,
  { new: true, runValidators: true })\<close> casts the body to the schema, which trims
  \<open>category\<close> and \<open>description\<close>, sets these paths on the first matching document and
  returns the document after the update; being a query and not a \<^verbatim>\<open>save\<close>, it does not
  run the \<^verbatim>\<open>pre('save')\<close> hook. The update validators are the argument
  \<open>runValidators\<close>.
\<close>

record updateBody =
  upd_type :: "txn_type option"
  upd_amount :: "rat option"
  upd_category :: "string option"
  upd_description :: "string option"
  upd_startDate :: "int option"
  upd_endDate :: "int optional"
  upd_frequency :: "frequency option"
  upd_dayOfMonth :: "int optional"
  upd_dayOfWeek :: "int optional"
  upd_month :: "int option"
  upd_isActive :: "bool option"
  upd_nextOccurrence :: "int option"

definition orElse :: "'a option \<Rightarrow> 'a \<Rightarrow> 'a" where
  "orElse v d = (case v of None \<Rightarrow> d | Some x \<Rightarrow> x)"

definition orKeep :: "'a option \<Rightarrow> 'a option \<Rightarrow> 'a option" where
  "orKeep v d = (case v of None \<Rightarrow> d | Some x \<Rightarrow> Some x)"

definition orStored :: "'a optional \<Rightarrow> 'a optional \<Rightarrow> 'a optional" where
  "orStored v d = (case v of Absent \<Rightarrow> d | Null \<Rightarrow> Null | Value x \<Rightarrow> Value x)"

definition applyBody :: "updateBody \<Rightarrow> RecurringTransaction \<Rightarrow> RecurringTransaction" where
  "applyBody b rt =
     rt\<lparr>type := orElse (upd_type b) (type rt),
        amount := orElse (upd_amount b) (amount rt),
        category := orElse (map_option trim (upd_category b)) (category rt),
        description := orElse (map_option trim (upd_description b)) (description rt),
        startDate := orElse (upd_startDate b) (startDate rt),
        endDate := orStored (upd_endDate b) (endDate rt),
        frequency := orElse (upd_frequency b) (frequency rt),
        dayOfMonth := orStored (upd_dayOfMonth b) (dayOfMonth rt),
        dayOfWeek := orStored (upd_dayOfWeek b) (dayOfWeek rt),
        month := orKeep (upd_month b) (month rt),
        isActive := orElse (upd_isActive b) (isActive rt),
        nextOccurrence := orKeep (upd_nextOccurrence b) (nextOccurrence rt)\<rparr>"

definition updateRecurringTransaction ::
  "env \<Rightarrow> (updateBody \<Rightarrow> bool) \<Rightarrow> nat \<Rightarrow> nat \<Rightarrow> updateBody \<Rightarrow> world
     \<Rightarrow> (error + RecurringTransaction) \<times> world" where
  "updateRecurringTransaction =
     catchAsync (\<lambda>e runValidators i uid b w.
       if \<not> runValidators b then (Inl (Error ''Validation failed''), w)
       else if writeFails e then (Inl StoreError, w)
       else
         (case findOne i uid (templates w) of
            None \<Rightarrow> (Inl (AppError ''No recurring transaction found with that ID'' 404), w)
          | Some rt \<Rightarrow>
              (Inr (applyBody b rt),
               w\<lparr>templates :=
                    updateFirst (\<lambda>t. oid t = i \<and> userId t = uid) (applyBody b) (templates w)\<rparr>)))"

text \<open>The paths of a body that the \<^verbatim>\<open>pre('save')\<close> hook watches.\<close>

definition cadencePaths :: "updateBody \<Rightarrow> string list" where
  "cadencePaths b =
     (if upd_frequency b \<noteq> None then [''frequency''] else [])
     @ (if upd_startDate b \<noteq> None then [''startDate''] else [])
     @ (if upd_endDate b \<noteq> Absent then [''endDate''] else [])"


section \<open>Notions used to state the properties\<close>

text \<open>Whether an entry of the error log names the template with the \<^verbatim>\<open>_id\<close> \<open>i\<close>.\<close>

fun refersTo :: "nat \<Rightarrow> log_entry \<Rightarrow> bool" where
  "refersTo i (ErrorProcessingTransaction m j) = (i = j)"
| "refersTo i ErrorProcessingTransactions = False"
| "refersTo i (ErrorTogglingActiveStatus j) = (i = j)"

text \<open>
  Cycles one after the other, as the scheduler and the administrative route start them:
  each call has its own clock and its own outcomes of the database operations, and works on
  the collections the call before it left.
\<close>

fun runCycles :: "env list \<Rightarrow> world \<Rightarrow> world" where
  "runCycles [] w = w"
| "runCycles (e # es) w = runCycles es (snd (processRecurringTransactions e w))"


section \<open>Example data\<close>

text \<open>
  Instants are written \<open>utc year month day hour\<close>, with the month counted from 0 as in
  JavaScript. \<open>quietEnv now\<close> is a call at the instant \<open>now\<close> in which every database
  operation succeeds; \<open>template0\<close> is an active daily template of user 7, started and due
  on 1 January 2024, 00:00, stored without the path \<open>endDate\<close>.
\<close>

definition quietEnv :: "int \<Rightarrow> env" where
  "quietEnv now =
     \<lparr>clock = now, sessionFails = False, findFails = False, ledgerFails = (\<lambda>d. False),
      writeFails = False, commitFails = False\<rparr>"

definition template0 :: RecurringTransaction where
  "template0 =
     \<lparr>oid = 0, RecurringTransaction.userId = 7, RecurringTransaction.type = expense,
      RecurringTransaction.amount = 100, RecurringTransaction.category = ''Utilities'',
      RecurringTransaction.description = [], startDate = utc 2024 0 1 0, endDate = Absent,
      frequency = daily, dayOfMonth = Absent, dayOfWeek = Absent, month = None,
      isActive = True, lastProcessed = None, nextOccurrence = Some (utc 2024 0 1 0)\<rparr>"

text \<open>A monthly template for the 31st whose next occurrence is \<open>t\<close>.\<close>

definition monthly31 :: "int \<Rightarrow> RecurringTransaction" where
  "monthly31 t =
     template0\<lparr>frequency := monthly, dayOfMonth := Value 31, startDate := t,
               nextOccurrence := Some t\<rparr>"

text \<open>A daily template due on 1 January 2024 that ends on 2 January 2024, 00:00.\<close>

definition lastDay :: RecurringTransaction where
  "lastDay = template0\<lparr>endDate := Value (utc 2024 0 2 0)\<rparr>"



text \<open>
  Three daily or weekly templates due on 1 January 2024; the second has a category of the
  template schema that the Transaction schema does not list.
\<close>

definition t1 :: RecurringTransaction where
  "t1 = template0\<lparr>oid := 1\<rparr>"

definition t2 :: RecurringTransaction where
  "t2 = template0\<lparr>oid := 2, category := ''Rent/Mortgage''\<rparr>"

definition t3 :: RecurringTransaction where
  "t3 = template0\<lparr>oid := 3, frequency := weekly, dayOfWeek := Value 1\<rparr>"

definition world3 :: world where
  "world3 = \<lparr>templates = [t1, t2, t3], ledger = [], errorLog = []\<rparr>"

text \<open>
  Calls on 31 December 2023 and on 1, 2 and 20 January 2024, 03:00, with every database
  operation succeeding.
\<close>

definition callDec31 :: env where
  "callDec31 = quietEnv (utc 2023 11 31 3)"

definition cycleJan1 :: env where
  "cycleJan1 = quietEnv (utc 2024 0 1 3)"

definition cycleJan2 :: env where
  "cycleJan2 = quietEnv (utc 2024 0 2 3)"

definition cycleJan20 :: env where
  "cycleJan20 = quietEnv (utc 2024 0 20 3)"

text \<open>One due template.\<close>

definition world1 :: world where
  "world1 = \<lparr>templates = [template0], ledger = [], errorLog = []\<rparr>"

text \<open>A daily template due on 1 January 2024, 00:00, that ends the same day at 12:00.\<close>

definition lastOne :: RecurringTransaction where
  "lastOne = template0\<lparr>oid := 1, endDate := Value (utc 2024 0 1 12)\<rparr>"

definition worldLast :: world where
  "worldLast = \<lparr>templates = [lastOne], ledger = [], errorLog = []\<rparr>"

text \<open>
  A monthly template for the 5th, started and processed on 5 January 2024 and due next on
  5 February; a request body that moves \<open>startDate\<close> to 10 March 2024.
\<close>

definition rent :: RecurringTransaction where
  "rent = template0\<lparr>oid := 5, frequency := monthly, dayOfMonth := Value 5,
                    startDate := utc 2024 0 5 0, lastProcessed := Some (utc 2024 0 5 3),
                    nextOccurrence := Some (utc 2024 1 5 0)\<rparr>"

definition emptyBody :: updateBody where
  "emptyBody =
     \<lparr>upd_type = None, upd_amount = None, upd_category = None, upd_description = None,
      upd_startDate = None, upd_endDate = Absent, upd_frequency = None,
      upd_dayOfMonth = Absent, upd_dayOfWeek = Absent, upd_month = None,
      upd_isActive = None, upd_nextOccurrence = None\<rparr>"

definition moveStart :: updateBody where
  "moveStart = emptyBody\<lparr>upd_startDate := Some (utc 2024 2 10 0)\<rparr>"

definition worldRent :: world where
  "worldRent = \<lparr>templates = [rent], ledger = [], errorLog = []\<rparr>"

text \<open>
  A daily template that was switched off on 1 January 2024 and ended on 10 January 2024, and
  what \<open>toggleActiveStatus\<close> makes of it on 20 January.
\<close>

definition paused :: RecurringTransaction where
  "paused = template0\<lparr>oid := 9, endDate := Value (utc 2024 0 10 0), isActive := False\<rparr>"

definition worldPaused :: world where
  "worldPaused = \<lparr>templates = [paused], ledger = [], errorLog = []\<rparr>"

definition revived :: RecurringTransaction where
  "revived = paused\<lparr>isActive := True, nextOccurrence := Some (utc 2024 0 2 0)\<rparr>"


section \<open>Evaluation\<close>

lemmas cal = msPerDay_def Day_def TimeWithinDay_def WeekDay_def DayFromYearMonth_def MakeDay_def
  MakeDate_def TimeClip_def yearOfEra_def dayOfYear_def civil_def civilOfEra_def CivilFromDay_def
  getFullYear_def getMonth_def getDate_def getDay_def setDate_def setMonth_def setFullYear_def
  newDate3_def utc_def

lemmas calc = baseDate_def toNumber_def daysToAdd_def setTargetDayOfMonth_def nextDate_def
  calculateNextOccurrence_def signed_modulo_int_def

lemmas entry_eval = newTransaction_def trim_def isWhiteSpace_def truthy_def

lemma utc_examples:
  "utc 1970 0 1 0 = 0"
  "utc 2023 0 31 9 = 1675155600000"
  "utc 2024 1 29 0 = 1709164800000"
  "getDay (utc 2024 0 1 0) = 1"
  by (simp_all add: cal)

lemma baseDate_eq:
  "baseDate now rt = (case nextOccurrence rt of None \<Rightarrow> startDate rt | Some n \<Rightarrow> n)"
  by (simp add: baseDate_def split: option.splits)

lemma nextDate_now: "nextDate now rt = nextDate now' rt"
  unfolding nextDate_def baseDate_eq by (rule refl)

lemma calculateNextOccurrence_now:
  "calculateNextOccurrence now rt = calculateNextOccurrence now' rt"
  unfolding calculateNextOccurrence_def nextDate_now [of now rt now'] by (rule refl)

text \<open>
  What a call of \<open>processRecurringTransactions\<close> does, whatever the clock and the
  collections: when the session starts, the read raises the TypeError, the \<^verbatim>\<open>catch\<close>
  logs it and throws it again; the loop is not entered.
\<close>

lemma processRecurringTransactions_eq:
  "processRecurringTransactions e w =
     (if sessionFails e then (Inl StoreError, w)
      else (Inl (TypeError ''RecurringTransaction.getTransactionsToProcess(...).session is not a function''),
            w\<lparr>errorLog := errorLog w @ [ErrorProcessingTransactions]\<rparr>))"
  by (simp add: processRecurringTransactions_def catchAsync_def abortCycle_def startCycle_def)

lemma env_cycleJan1:
  "clock cycleJan1 = utc 2024 0 1 3" "\<not> sessionFails cycleJan1" "\<not> findFails cycleJan1"
  "\<not> writeFails cycleJan1" "\<not> commitFails cycleJan1" "\<not> ledgerFails cycleJan1 d"
  by (simp_all add: cycleJan1_def quietEnv_def)

lemma env_cycleJan2:
  "clock cycleJan2 = utc 2024 0 2 3" "\<not> sessionFails cycleJan2" "\<not> findFails cycleJan2"
  "\<not> writeFails cycleJan2" "\<not> commitFails cycleJan2" "\<not> ledgerFails cycleJan2 d"
  by (simp_all add: cycleJan2_def quietEnv_def)

lemma env_callDec31:
  "clock callDec31 = utc 2023 11 31 3" "\<not> ledgerFails callDec31 d"
  by (simp_all add: callDec31_def quietEnv_def)

lemma template0_facts:
  "matchesQuery (utc 2024 0 1 3) template0" "matchesQuery (utc 2024 0 2 3) template0"
  "calculateNextOccurrence now template0 = Some (Date (utc 2024 0 2 0))"
  "oid template0 = 0"
  by (simp_all add: matchesQuery_def template0_def calc cal)

lemma world1_fields:
  "templates world1 = [template0]" "ledger world1 = []" "errorLog world1 = []"
  by (simp_all add: world1_def)

lemma world3_fields:
  "templates world3 = [t1, t2, t3]" "ledger world3 = []" "errorLog world3 = []"
  by (simp_all add: world3_def)

lemma worldLast_fields:
  "templates worldLast = [lastOne]" "ledger worldLast = []" "errorLog worldLast = []"
  by (simp_all add: worldLast_def)

lemma due_world3: "getTransactionsToProcess (utc 2024 0 1 3) [t1, t2, t3] = [t1, t2, t3]"
  by (simp add: getTransactionsToProcess_def matchesQuery_def t1_def t2_def t3_def template0_def cal)

lemma lastOne_facts:
  "matchesQuery (utc 2024 0 1 3) lastOne"
  "calculateNextOccurrence now lastOne = None"
  "isActive lastOne"
  "nextOccurrence lastOne = Some (utc 2024 0 1 0)"
  "startDate lastOne = utc 2024 0 1 0"
  "utc 2024 0 1 0 < utc 2024 0 1 3"
  by (simp_all add: matchesQuery_def lastOne_def template0_def calc cal)


section \<open>The next-occurrence calculation\<close>

text \<open>
  C2. Claimed: a monthly template advances to the next calendar month, with the day
  \<open>min(dayOfMonth, last day of that month)\<close>; for \<open>dayOfMonth = 31\<close> and the reference
  31 January the result is 28 February, or 29 February in a leap year. The code first calls
  \<^verbatim>\<open>setMonth(getMonth() + 1)\<close> on 31 January, which is 31 February and carries over into
  March; the clamp is then taken against the length of March. For 31 January 2023 and
  for 31 January 2024, 09:00, the method returns 31 March of the same year, 09:00.
\<close>

theorem calculateNextOccurrence_jan31:
  "calculateNextOccurrence now (monthly31 (utc 2023 0 31 9)) = Some (Date (utc 2023 2 31 9))
   \<and> calculateNextOccurrence now (monthly31 (utc 2024 0 31 9)) = Some (Date (utc 2024 2 31 9))
   \<and> utc 2023 2 31 9 \<noteq> utc 2023 1 28 9 \<and> utc 2024 2 31 9 \<noteq> utc 2024 1 29 9"
  by (simp add: monthly31_def template0_def calc cal)

text \<open>
  C6, as stated, fails: the daily template \<open>lastDay\<close> has the candidate date
  2 January 2024, 00:00, equal to its \<open>endDate\<close>, and the method returns that date.
\<close>

theorem endDate_counterexample:
  "endDate lastDay = Value (utc 2024 0 2 0)
   \<and> nextDate (utc 2024 0 1 3) lastDay = Date (utc 2024 0 2 0)
   \<and> calculateNextOccurrence (utc 2024 0 1 3) lastDay = Some (Date (utc 2024 0 2 0))"
  by (simp add: lastDay_def template0_def calc cal)

text \<open>
  C6, amended. For every template with \<open>endDate\<close> set, \<open>calculateNextOccurrence\<close> returns
  \<open>None\<close> exactly when the template is inactive or the candidate date is strictly after
  \<open>endDate\<close>; a date it returns is the candidate and is not after \<open>endDate\<close>, so an
  occurrence equal to \<open>endDate\<close> is returned.
\<close>

theorem calculateNextOccurrence_endDate:
  assumes "endDate rt = Value e"
  shows "(calculateNextOccurrence now rt = None)
           = (\<not> isActive rt \<or> date_gt (nextDate now rt) e)
         \<and> (\<forall>d. calculateNextOccurrence now rt = Some d
                \<longrightarrow> d = nextDate now rt \<and> \<not> date_gt d e)"
  using assms by (auto simp: calculateNextOccurrence_def split: if_splits)

text \<open>The template \<open>lastDay\<close>: active, candidate date equal to \<open>endDate\<close>, a date is returned.\<close>

theorem calculateNextOccurrence_endDate_witness:
  "endDate lastDay = Value (utc 2024 0 2 0)
   \<and> isActive lastDay
   \<and> calculateNextOccurrence (utc 2024 0 1 3) lastDay \<noteq> None
   \<and> \<not> date_gt (nextDate (utc 2024 0 1 3) lastDay) (utc 2024 0 2 0)"
proof -
  have h: "endDate lastDay = Value (utc 2024 0 2 0)"
    by (simp add: lastDay_def template0_def)
  have a: "isActive lastDay"
    by (simp add: lastDay_def template0_def)
  have n: "\<not> date_gt (nextDate (utc 2024 0 1 3) lastDay) (utc 2024 0 2 0)"
    by (simp add: lastDay_def template0_def calc cal)
  from calculateNextOccurrence_endDate [OF h, of "utc 2024 0 1 3"] a n
  have "calculateNextOccurrence (utc 2024 0 1 3) lastDay \<noteq> None" by blast
  with h a n show ?thesis by blast
qed


section \<open>The selection of due templates\<close>





section \<open>The batch processor\<close>



text \<open>
  C3. Claimed: every invocation returns a result with the count of processed templates and
  a list of failures, and throws only for a catastrophic failure such as an unreachable
  store. No invocation returns a result: when the session cannot be started the call
  throws the error of the store, and otherwise it throws the TypeError of its read. On
  1 January 2024 the session starts, no database operation fails, three templates are due,
  and the call throws.
\<close>

theorem every_invocation_throws:
  "fst (processRecurringTransactions e w)
     = Inl (if sessionFails e then StoreError
            else TypeError ''RecurringTransaction.getTransactionsToProcess(...).session is not a function'')
   \<and> \<not> sessionFails cycleJan1 \<and> \<not> writeFails cycleJan1 \<and> \<not> commitFails cycleJan1
   \<and> fst (processRecurringTransactions cycleJan1 world3)
       = Inl (TypeError ''RecurringTransaction.getTransactionsToProcess(...).session is not a function'')"
  by (simp add: processRecurringTransactions_eq env_cycleJan1)

text \<open>
  C4. Claimed: the ledger entry of a template materialized by the batch processor is dated
  \<open>nextOccurrence\<close>, has the template's type, amount and category, the description
  \<^verbatim>\<open>Recurring: {category}\<close> when the template's description is empty, and the
  back-references \<open>isFromRecurring = true\<close> and the template's id. The cycle of
  1 January 2024 selects the due template \<open>template0\<close>, throws at its read and leaves the
  ledger empty: the entry of the claim is not created. The mock request of the cycle would
  not carry the back-references. And the ledger write drops them when a request carries
  them: \<^verbatim>\<open>createRecurringTransaction\<close>, having created \<open>template0\<close> on
  31 December 2023, passes \<open>isFromRecurring = true\<close> and the template's id to
  \<^verbatim>\<open>createTransaction\<close>, and the entry that is saved has \<open>isFromRecurring = false\<close>
  and no \<open>recurringTransactionId\<close>.
\<close>

theorem due_template_gets_no_entry:
  "getTransactionsToProcess (clock cycleJan1) (templates world1) = [template0]
   \<and> processRecurringTransactions cycleJan1 world1
       = (Inl (TypeError ''RecurringTransaction.getTransactionsToProcess(...).session is not a function''),
          \<lparr>templates = [template0], ledger = [], errorLog = [ErrorProcessingTransactions]\<rparr>)
   \<and> body_isFromRecurring (mockReq template0) = None
   \<and> body_recurringTransactionId (mockReq template0) = None
   \<and> preSave (clock callDec31) True [] template0 = Inr template0
   \<and> body_isFromRecurring (mockReqInitial template0) = Some True
   \<and> body_recurringTransactionId (mockReqInitial template0) = Some 0
   \<and> createTransaction callDec31 (mockReqInitial template0)
         (mockRes ''Failed to create initial transaction'') []
       = (Inr (),
          [\<lparr>Transaction.userId = 7, Transaction.type = expense, Transaction.amount = 100,
            Transaction.category = ''Utilities'', Transaction.description = ''Recurring: Utilities'',
            date = utc 2024 0 1 0, receiptId = None, receiptUrl = None, isFromReceipt = False,
            isFromRecurring = False, recurringTransactionId = None,
            lastAccessed = utc 2023 11 31 3\<rparr>])"
proof -
  have a: "getTransactionsToProcess (clock cycleJan1) (templates world1) = [template0]"
    by (simp add: world1_fields env_cycleJan1(1) getTransactionsToProcess_def template0_facts)
  have b: "processRecurringTransactions cycleJan1 world1
       = (Inl (TypeError ''RecurringTransaction.getTransactionsToProcess(...).session is not a function''),
          \<lparr>templates = [template0], ledger = [], errorLog = [ErrorProcessingTransactions]\<rparr>)"
    by (simp add: processRecurringTransactions_eq env_cycleJan1 world1_def)
  have c: "body_isFromRecurring (mockReq template0) = None"
    "body_recurringTransactionId (mockReq template0) = None"
    "body_isFromRecurring (mockReqInitial template0) = Some True"
    "body_recurringTransactionId (mockReqInitial template0) = Some 0"
    by (simp_all add: mockReq_def mockReqInitial_def template0_def)
  have d: "preSave (clock callDec31) True [] template0 = Inr template0"
    by (simp add: preSave_def env_callDec31 template0_def cal)
  have n: "newTransaction (utc 2023 11 31 3) (mockReqInitial template0)
       = \<lparr>Transaction.userId = 7, Transaction.type = expense, Transaction.amount = 100,
            Transaction.category = ''Utilities'', Transaction.description = ''Recurring: Utilities'',
            date = utc 2024 0 1 0, receiptId = None, receiptUrl = None, isFromReceipt = False,
            isFromRecurring = False, recurringTransactionId = None,
            lastAccessed = utc 2023 11 31 3\<rparr>"
    by (simp add: entry_eval mockReqInitial_def template0_def)
  have v: "validateTransaction (utc 2023 11 31 3)
       \<lparr>Transaction.userId = 7, Transaction.type = expense, Transaction.amount = 100,
            Transaction.category = ''Utilities'', Transaction.description = ''Recurring: Utilities'',
            date = utc 2024 0 1 0, receiptId = None, receiptUrl = None, isFromReceipt = False,
            isFromRecurring = False, recurringTransactionId = None,
            lastAccessed = utc 2023 11 31 3\<rparr>"
    by (simp add: validateTransaction_def transactionCategories_def cal)
  have m: "validationErrors (mockReqInitial template0) = False"
    by (simp add: mockReqInitial_def)
  have e: "createTransaction callDec31 (mockReqInitial template0)
         (mockRes ''Failed to create initial transaction'') []
       = (Inr (),
          [\<lparr>Transaction.userId = 7, Transaction.type = expense, Transaction.amount = 100,
            Transaction.category = ''Utilities'', Transaction.description = ''Recurring: Utilities'',
            date = utc 2024 0 1 0, receiptId = None, receiptUrl = None, isFromReceipt = False,
            isFromRecurring = False, recurringTransactionId = None,
            lastAccessed = utc 2023 11 31 3\<rparr>])"
    using v by (simp add: createTransaction_def m env_callDec31 n mockRes_def)
  from a b c d e show ?thesis by (simp only: simp_thms)
qed

text \<open>
  C7. Claimed: of three due templates with the ledger failing for the second, the first and
  the third are materialized and advanced, the second is left unchanged, and exactly one
  error refers to the second's id. On 1 January 2024 the three templates of \<open>world3\<close>
  are due, and the ledger would reject the entry of the second, whose category is not a
  category of the Transaction schema. The cycle throws at its read: no template is
  materialized or advanced, the ledger stays empty, and the one entry added to the error
  log is that of the outer \<^verbatim>\<open>catch\<close>, which refers to no template. The cycle of
  2 January does the same.
\<close>

theorem batch_of_three_is_not_processed:
  "getTransactionsToProcess (clock cycleJan1) (templates world3) = [t1, t2, t3]
   \<and> category t2 \<in> set recurringCategories \<and> category t2 \<notin> set transactionCategories
   \<and> oid t2 = 2
   \<and> \<not> sessionFails cycleJan1
   \<and> processRecurringTransactions cycleJan1 world3
       = (Inl (TypeError ''RecurringTransaction.getTransactionsToProcess(...).session is not a function''),
          \<lparr>templates = [t1, t2, t3], ledger = [], errorLog = [ErrorProcessingTransactions]\<rparr>)
   \<and> filter (refersTo 2) (errorLog (snd (processRecurringTransactions cycleJan1 world3))) = []
   \<and> runCycles [cycleJan1, cycleJan2] world3
       = \<lparr>templates = [t1, t2, t3], ledger = [],
          errorLog = [ErrorProcessingTransactions, ErrorProcessingTransactions]\<rparr>"
proof -
  have a: "getTransactionsToProcess (clock cycleJan1) (templates world3) = [t1, t2, t3]"
    by (simp add: world3_fields env_cycleJan1(1) due_world3)
  have b: "category t2 \<in> set recurringCategories" "category t2 \<notin> set transactionCategories"
    "oid t2 = 2"
    by (simp_all add: t2_def template0_def recurringCategories_def transactionCategories_def)
  have c: "processRecurringTransactions cycleJan1 world3
       = (Inl (TypeError ''RecurringTransaction.getTransactionsToProcess(...).session is not a function''),
          \<lparr>templates = [t1, t2, t3], ledger = [], errorLog = [ErrorProcessingTransactions]\<rparr>)"
    by (simp add: processRecurringTransactions_eq env_cycleJan1 world3_def)
  have d: "runCycles [cycleJan1, cycleJan2] world3
       = \<lparr>templates = [t1, t2, t3], ledger = [],
          errorLog = [ErrorProcessingTransactions, ErrorProcessingTransactions]\<rparr>"
    by (simp add: processRecurringTransactions_eq env_cycleJan1 env_cycleJan2 world3_def)
  from a b c d env_cycleJan1(2) show ?thesis by simp
qed

text \<open>
  C10. Claimed: when the calculation yields no next occurrence for a processed template,
  the batch processor stores it with \<open>isActive = false\<close> and \<open>nextOccurrence\<close>
  unchanged, so that \<open>nextOccurrence\<close> is a set timestamp on every template and is never
  cleared. The template \<open>lastOne\<close> is due on 1 January 2024 and has no occurrence after
  it. The cycle of that day selects it and throws at its read: the template stays stored
  with \<open>isActive = true\<close>. And \<open>nextOccurrence\<close> is cleared by the
  \<^verbatim>\<open>pre('save')\<close> hook: when \<open>lastOne\<close> is created on 1 January 2024, 03:00, its
  \<open>startDate\<close> is past, the calculation yields \<^verbatim>\<open>null\<close>, the hook assigns it, and the
  document is saved active and without \<open>nextOccurrence\<close>, which the schema declares
  \<^verbatim>\<open>required\<close>.
\<close>

theorem final_occurrence_is_not_deactivated:
  "getTransactionsToProcess (clock cycleJan1) (templates worldLast) = [lastOne]
   \<and> calculateNextOccurrence (clock cycleJan1) lastOne = None
   \<and> \<not> sessionFails cycleJan1
   \<and> processRecurringTransactions cycleJan1 worldLast
       = (Inl (TypeError ''RecurringTransaction.getTransactionsToProcess(...).session is not a function''),
          \<lparr>templates = [lastOne], ledger = [], errorLog = [ErrorProcessingTransactions]\<rparr>)
   \<and> isActive lastOne
   \<and> preSave (clock cycleJan1) True [] lastOne = Inr (lastOne\<lparr>nextOccurrence := None\<rparr>)
   \<and> isActive (lastOne\<lparr>nextOccurrence := None\<rparr>)
   \<and> nextOccurrence (lastOne\<lparr>nextOccurrence := None\<rparr>) = None"
proof -
  have a: "getTransactionsToProcess (clock cycleJan1) (templates worldLast) = [lastOne]"
    by (simp add: worldLast_fields env_cycleJan1(1) getTransactionsToProcess_def lastOne_facts)
  have b: "processRecurringTransactions cycleJan1 worldLast
       = (Inl (TypeError ''RecurringTransaction.getTransactionsToProcess(...).session is not a function''),
          \<lparr>templates = [lastOne], ledger = [], errorLog = [ErrorProcessingTransactions]\<rparr>)"
    by (simp add: processRecurringTransactions_eq env_cycleJan1 worldLast_def)
  have same: "lastOne\<lparr>nextOccurrence := Some (utc 2024 0 1 0)\<rparr> = lastOne"
    by (simp add: lastOne_def template0_def)
  have c: "preSave (clock cycleJan1) True [] lastOne = Inr (lastOne\<lparr>nextOccurrence := None\<rparr>)"
    by (simp add: preSave_def env_cycleJan1(1) lastOne_facts same)
  from a b c lastOne_facts(2,3) env_cycleJan1(2) show ?thesis by simp
qed


section \<open>Lifecycle operations\<close>

text \<open>
  C8. Claimed: an update that changes \<open>frequency\<close>, \<open>startDate\<close> or \<open>endDate\<close>
  recomputes \<open>nextOccurrence\<close>. On 20 January 2024 the update of the template \<open>rent\<close>
  with the body \<open>moveStart\<close> returns the template with \<open>startDate\<close> 10 March and
  \<open>nextOccurrence\<close> still 5 February, before the new start. The \<^verbatim>\<open>pre('save')\<close>
  hook would have set \<open>nextOccurrence\<close> to 10 March; \<^verbatim>\<open>findOneAndUpdate\<close> does not
  run it.
\<close>

theorem update_keeps_nextOccurrence:
  "updateRecurringTransaction cycleJan20 (\<lambda>b. True) 5 7 moveStart worldRent
     = (Inr (rent\<lparr>startDate := utc 2024 2 10 0\<rparr>),
        \<lparr>templates = [rent\<lparr>startDate := utc 2024 2 10 0\<rparr>], ledger = [], errorLog = []\<rparr>)
   \<and> nextOccurrence (rent\<lparr>startDate := utc 2024 2 10 0\<rparr>) = Some (utc 2024 1 5 0)
   \<and> utc 2024 1 5 0 < utc 2024 2 10 0
   \<and> preSave (clock cycleJan20) False (cadencePaths moveStart) (rent\<lparr>startDate := utc 2024 2 10 0\<rparr>)
       = Inr (rent\<lparr>startDate := utc 2024 2 10 0, nextOccurrence := Some (utc 2024 2 10 0)\<rparr>)"
proof -
  have a: "applyBody moveStart rent = rent\<lparr>startDate := utc 2024 2 10 0\<rparr>"
    by (simp add: applyBody_def moveStart_def emptyBody_def orElse_def orKeep_def orStored_def
        rent_def template0_def)
  have f: "findOne 5 7 [rent] = Some rent" "oid rent = 5" "userId rent = 7"
    by (simp_all add: findOne_def rent_def template0_def)
  have u: "updateRecurringTransaction cycleJan20 (\<lambda>b. True) 5 7 moveStart worldRent
     = (Inr (rent\<lparr>startDate := utc 2024 2 10 0\<rparr>),
        \<lparr>templates = [rent\<lparr>startDate := utc 2024 2 10 0\<rparr>], ledger = [], errorLog = []\<rparr>)"
    by (simp add: updateRecurringTransaction_def catchAsync_def worldRent_def cycleJan20_def quietEnv_def f a)
  have n: "nextOccurrence (rent\<lparr>startDate := utc 2024 2 10 0\<rparr>) = Some (utc 2024 1 5 0)"
    by (simp add: rent_def template0_def)
  have l: "utc 2024 1 5 0 < utc 2024 2 10 0" "\<not> utc 2024 2 10 0 < utc 2024 0 20 3"
    by (simp_all add: cal)
  have p: "preSave (clock cycleJan20) False (cadencePaths moveStart) (rent\<lparr>startDate := utc 2024 2 10 0\<rparr>)
       = Inr (rent\<lparr>startDate := utc 2024 2 10 0, nextOccurrence := Some (utc 2024 2 10 0)\<rparr>)"
    using l(2)
    by (simp add: preSave_def cadencePaths_def moveStart_def emptyBody_def cycleJan20_def
        quietEnv_def)
  from u n l(1) p show ?thesis by simp
qed

text \<open>
  C9. Claimed: toggling an inactive template whose \<open>endDate\<close> has passed is rejected. On
  20 January 2024 the template \<open>paused\<close>, inactive, with \<open>endDate\<close> 10 January and
  \<open>nextOccurrence\<close> 1 January, is toggled: the method computes 2 January from the stale
  \<open>nextOccurrence\<close> (the argument \<open>now\<close> of the call is not a parameter of the method),
  2 January is not after \<open>endDate\<close>, and the toggle succeeds. The template is stored
  active with \<open>nextOccurrence\<close> 2 January, and the selection never returns it.
\<close>

theorem toggle_reactivates_ended_template:
  "\<not> isActive paused \<and> endDate paused = Value (utc 2024 0 10 0)
   \<and> utc 2024 0 10 0 < clock cycleJan20
   \<and> toggleActiveStatus cycleJan20 9 7 worldPaused
       = (Inr revived, \<lparr>templates = [revived], ledger = [], errorLog = []\<rparr>)
   \<and> isActive revived \<and> nextOccurrence revived = Some (utc 2024 0 2 0)
   \<and> endDate revived = Value (utc 2024 0 10 0)
   \<and> getTransactionsToProcess (clock cycleJan20) [revived] = []"
proof -
  have e: "clock cycleJan20 = utc 2024 0 20 3" "\<not> sessionFails cycleJan20"
    "\<not> findFails cycleJan20" "\<not> writeFails cycleJan20" "\<not> commitFails cycleJan20"
    by (simp_all add: cycleJan20_def quietEnv_def)
  have f: "findOne 9 7 [paused] = Some paused" "oid revived = 9" "isActive paused = False"
    by (simp_all add: findOne_def revived_def paused_def template0_def)
  have c: "calculateNextOccurrence now (paused\<lparr>isActive := True\<rparr>) = Some (Date (utc 2024 0 2 0))" for now
    by (simp add: paused_def template0_def calc cal)
  have stale: "nextOccurrence (paused\<lparr>isActive := True\<rparr>) = Some (utc 2024 0 1 0)"
    "utc 2024 0 1 0 < utc 2024 0 20 3" "utc 2024 0 10 0 < utc 2024 0 20 3"
    by (simp_all add: paused_def template0_def cal)
  have r: "reactivate (utc 2024 0 20 3) (paused\<lparr>isActive := True\<rparr>)
             = Inr (paused\<lparr>isActive := True\<rparr>, Some (Date (utc 2024 0 2 0)))"
    by (simp add: reactivate_def c stale)
  have s: "saveDocument cycleJan20 [''isActive'', ''nextOccurrence'']
             (paused\<lparr>isActive := True\<rparr>, Some (Date (utc 2024 0 2 0))) [paused]
           = Inr (revived, [revived])"
    by (simp add: saveDocument_def preSave_def e f revived_def [symmetric])
       (simp add: revived_def paused_def template0_def)
  have t: "toggleActiveStatus cycleJan20 9 7 worldPaused
       = (Inr revived, \<lparr>templates = [revived], ledger = [], errorLog = []\<rparr>)"
    using r s by (simp add: toggleActiveStatus_def catchAsync_def worldPaused_def e f)
  have p: "\<not> isActive paused" "endDate paused = Value (utc 2024 0 10 0)"
    "isActive revived" "nextOccurrence revived = Some (utc 2024 0 2 0)"
    "endDate revived = Value (utc 2024 0 10 0)"
    by (simp_all add: revived_def paused_def template0_def)
  have g: "getTransactionsToProcess (clock cycleJan20) [revived] = []"
    using stale(3) by (simp add: getTransactionsToProcess_def matchesQuery_def p e)
  from p stale(3) t g show ?thesis by (simp add: e(1))
qed

end
